theory Spec2Isabelle
  imports Main "HOL-Library.AList" "HOL-Library.Sublist"
begin

section \<open>The a3-transcoder worker: job store, queue consumer, presets, configuration\<close>

text \<open>
  The embedding follows \<^verbatim>\<open>worker/worker.py\<close>, \<^verbatim>\<open>worker/transcode.py\<close>,
  \<^verbatim>\<open>common/config.py\<close> and \<^verbatim>\<open>api/dal.py\<close>.

  Python names that start with an underscore get the prefix \<open>worker_\<close>
  (\<^verbatim>\<open>_update_job\<close> is \<open>worker_update_job\<close>, \<^verbatim>\<open>_now\<close> is \<open>worker_now\<close>, and so on);
  the functions of \<^verbatim>\<open>api/dal.py\<close> keep their names.

  What lies outside the repository is modelled as follows.
  \<^item> The DynamoDB table is a map from the key \<^verbatim>\<open>jobId\<close> to an item, an item a map from
    attribute names to string values. \<open>update_item\<close> is the documented behaviour of the
    service call: the condition expression, when there is one, is evaluated on the
    stored item and a false condition raises \<^verbatim>\<open>ConditionalCheckFailedException\<close>;
    otherwise the \<^verbatim>\<open>SET\<close> actions are applied, to a new item holding only the key when
    none is stored.
  \<^item> The clock is a function from the number of readings taken so far to the
    formatted time, so that two readings may differ.
  \<^item> The result of the S3 download, of the encoder process, of the S3 upload and of the
    queue delete are inputs of each delivery (\<open>outcomes\<close>): each may raise.
  \<^item> The lease extender runs in a thread of its own; only its start and stop are
    recorded.
  Every call of \<^verbatim>\<open>process_message\<close> and of the data access layer that leaves the process
  (table, bucket, encoder, queue delete, extender) is appended to \<open>trace\<close>, in program
  order.
\<close>

subsection \<open>Exceptions\<close>

datatype exn =
    KeyError string
  | TypeError string
  | ValueError string
  | RuntimeError string
  | ClientError string string
  | OSError string

text \<open>\<^verbatim>\<open>str(e)\<close>: a \<^verbatim>\<open>KeyError\<close> prints the \<^verbatim>\<open>repr\<close> of its key, \<open>ClientError code msg\<close>
  carries its message text, the others print their message.\<close>

fun str_exn :: "exn \<Rightarrow> string" where
  "str_exn (KeyError k) = [CHR 0x27] @ k @ [CHR 0x27]"
| "str_exn (TypeError m) = m"
| "str_exn (ValueError m) = m"
| "str_exn (RuntimeError m) = m"
| "str_exn (ClientError c m) = m"
| "str_exn (OSError m) = m"

subsection \<open>The job table and the trace of outside calls\<close>

type_synonym item = "string \<rightharpoonup> string"
type_synonym table = "string \<rightharpoonup> item"

datatype effect =
    GetItem string
  | UpdateItem string "(string \<times> string) list"
  | PutItem string
  | Download string string
  | StartExtender string
  | Encode "string list"
  | Upload string string
  | DeleteMsg string
  | StopExtender string
  | ReceiveMessage int int int

record world =
  jobs :: table
  clock :: "nat \<Rightarrow> string"
  tick :: nat
  trace :: "effect list"

definition emit :: "effect \<Rightarrow> world \<Rightarrow> world" where
  "emit e s = s\<lparr>trace := trace s @ [e]\<rparr>"

subsection \<open>DynamoDB \<^verbatim>\<open>update_item\<close>\<close>

text \<open>Expression placeholders: \<open>K i\<close> is \<^verbatim>\<open>#k<i>\<close>, \<open>St\<close> is \<^verbatim>\<open>#st\<close>, \<open>V i\<close> is
  \<^verbatim>\<open>:v<i>\<close>, \<open>Done\<close> is \<^verbatim>\<open>:done\<close>. An update expression \<^verbatim>\<open>SET n1 = v1, n2 = v2\<close> is the
  list of its assignments.\<close>

datatype name_ph = K nat | St
datatype val_ph = V nat | Done

datatype cond =
    Attribute_not_exists string
  | Ne name_ph val_ph
  | Or cond cond

fun eval_cond :: "(name_ph \<rightharpoonup> string) \<Rightarrow> (val_ph \<rightharpoonup> string) \<Rightarrow> item option \<Rightarrow> cond \<Rightarrow> bool option" where
  "eval_cond names vals it (Attribute_not_exists a) =
     Some (case it of None \<Rightarrow> True | Some i \<Rightarrow> i a = None)"
| "eval_cond names vals it (Ne n v) =
     (case names n of None \<Rightarrow> None
      | Some a \<Rightarrow>
        (case vals v of None \<Rightarrow> None
         | Some x \<Rightarrow> Some (case it of None \<Rightarrow> True | Some i \<Rightarrow> i a \<noteq> Some x)))"
| "eval_cond names vals it (Or c d) =
     (case eval_cond names vals it c of None \<Rightarrow> None
      | Some b \<Rightarrow>
        (case eval_cond names vals it d of None \<Rightarrow> None
         | Some b' \<Rightarrow> Some (b \<or> b')))"

fun resolve_sets ::
  "(name_ph \<rightharpoonup> string) \<Rightarrow> (val_ph \<rightharpoonup> string) \<Rightarrow> (name_ph \<times> val_ph) list
     \<Rightarrow> (string \<times> string) list option" where
  "resolve_sets names vals [] = Some []"
| "resolve_sets names vals ((n, v) # cs) =
     (case names n of None \<Rightarrow> None
      | Some a \<Rightarrow>
        (case vals v of None \<Rightarrow> None
         | Some x \<Rightarrow>
           (case resolve_sets names vals cs of None \<Rightarrow> None
            | Some r \<Rightarrow> Some ((a, x) # r))))"

fun apply_sets :: "(string \<times> string) list \<Rightarrow> item \<Rightarrow> item" where
  "apply_sets [] it = it"
| "apply_sets ((a, x) # r) it = apply_sets r (it(a \<mapsto> x))"

definition update_item ::
  "string \<Rightarrow> (name_ph \<times> val_ph) list \<Rightarrow> cond option
     \<Rightarrow> (name_ph \<times> string) list \<Rightarrow> (val_ph \<times> string) list \<Rightarrow> table \<Rightarrow> exn + table" where
  "update_item key sets condition names vals t =
     (case resolve_sets (map_of names) (map_of vals) sets of
        None \<Rightarrow> Inl (ClientError ''ValidationException'' ''invalid expression'')
      | Some assigns \<Rightarrow>
        (case (case condition of None \<Rightarrow> Some True
                | Some c \<Rightarrow> eval_cond (map_of names) (map_of vals) (t key) c) of
           None \<Rightarrow> Inl (ClientError ''ValidationException'' ''invalid expression'')
         | Some False \<Rightarrow>
             Inl (ClientError ''ConditionalCheckFailedException''
                    ''The conditional request failed'')
         | Some True \<Rightarrow>
             Inr (t(key \<mapsto> apply_sets assigns
                    (case t key of None \<Rightarrow> [''jobId'' \<mapsto> key] | Some i \<Rightarrow> i)))))"

subsection \<open>\<^verbatim>\<open>worker/worker.py\<close>: small helpers\<close>

definition worker_now :: "world \<Rightarrow> string \<times> world" where
  "worker_now s = (clock s (tick s), s\<lparr>tick := Suc (tick s)\<rparr>)"

definition worker_get_job :: "string \<Rightarrow> world \<Rightarrow> item option \<times> world" where
  "worker_get_job job_id s = (jobs s job_id, emit (GetItem job_id) s)"

text \<open>\<^verbatim>\<open>_update_job\<close>: \<open>fields\<close> is the keyword dictionary in insertion order;
  \<^verbatim>\<open>fields["updatedAt"] = _now()\<close> replaces the value in place or appends the key.
  The call to \<open>update_item\<close> carries no condition expression.\<close>

definition worker_update_job :: "string \<Rightarrow> (string \<times> string) list \<Rightarrow> world \<Rightarrow> exn option \<times> world" where
  "worker_update_job job_id fields0 s =
     (let (t, s1) = worker_now s;
          fields = AList.update ''updatedAt'' t fields0;
          names = map (\<lambda>(i, k). (K i, k)) (enumerate 1 (map fst fields));
          vals = map (\<lambda>(i, v). (V i, v)) (enumerate 1 (map snd fields));
          expr = zip (map fst names) (map fst vals);
          s2 = emit (UpdateItem job_id fields) s1
      in case update_item job_id expr None names vals (jobs s2) of
           Inr t' \<Rightarrow> (None, s2\<lparr>jobs := t'\<rparr>)
         | Inl (ClientError code msg) \<Rightarrow>
             (if code = ''ConditionalCheckFailedException'' then (None, s2)
              else (Some (ClientError code msg), s2))
         | Inl e \<Rightarrow> (Some e, s2))"

definition worker_download_from_s3 :: "exn option \<Rightarrow> string \<Rightarrow> string \<Rightarrow> world \<Rightarrow> exn option \<times> world" where
  "worker_download_from_s3 res key dest_path s = (res, emit (Download key dest_path) s)"

definition worker_upload_to_s3 :: "exn option \<Rightarrow> string \<Rightarrow> string \<Rightarrow> world \<Rightarrow> exn option \<times> world" where
  "worker_upload_to_s3 res src_path key s = (res, emit (Upload src_path key) s)"

definition worker_delete_msg :: "exn option \<Rightarrow> string \<Rightarrow> world \<Rightarrow> exn option \<times> world" where
  "worker_delete_msg res receipt_handle s = (res, emit (DeleteMsg receipt_handle) s)"

subsection \<open>\<^verbatim>\<open>worker/transcode.py\<close>\<close>

record preset_spec =
  width :: int
  height :: int
  crf :: int

definition PRESET_SPECS :: "string \<rightharpoonup> preset_spec" where
  "PRESET_SPECS = map_of
     [(''mp4-1080p'', \<lparr>width = 1920, height = 1080, crf = 23\<rparr>),
      (''mp4-720p'', \<lparr>width = 1280, height = 720, crf = 23\<rparr>),
      (''mp4-480p'', \<lparr>width = 854, height = 480, crf = 24\<rparr>),
      (''mp4-360p'', \<lparr>width = 640, height = 360, crf = 25\<rparr>)]"

text \<open>Line 42 of \<^verbatim>\<open>run_ffmpeg\<close>, \<^verbatim>\<open>PRESET_SPECS.get(preset, PRESET_SPECS["mp4-720p"])\<close>:
  the default is looked up first, as Python evaluates the argument.\<close>

definition resolve :: "string \<Rightarrow> exn + preset_spec" where
  "resolve preset =
     (case PRESET_SPECS ''mp4-720p'' of
        None \<Rightarrow> Inl (KeyError ''mp4-720p'')
      | Some dflt \<Rightarrow> Inr (case PRESET_SPECS preset of None \<Rightarrow> dflt | Some sp \<Rightarrow> sp))"

text \<open>Strings of the ASCII range: \<^verbatim>\<open>str.lower\<close>, \<^verbatim>\<open>str.strip\<close>, \<^verbatim>\<open>str(int)\<close>,
  \<^verbatim>\<open>" ".join\<close>.\<close>

definition lower_char :: "char \<Rightarrow> char" where
  "lower_char c =
     (let n = (of_char c :: nat) in if 65 \<le> n \<and> n \<le> 90 then char_of (n + 32) else c)"

definition lower :: "string \<Rightarrow> string" where
  "lower s = map lower_char s"

definition is_space :: "char \<Rightarrow> bool" where
  "is_space c = (let n = (of_char c :: nat) in (9 \<le> n \<and> n \<le> 13) \<or> (28 \<le> n \<and> n \<le> 32))"

definition strip :: "string \<Rightarrow> string" where
  "strip s = rev (dropWhile is_space (rev (dropWhile is_space s)))"

definition digit_char :: "nat \<Rightarrow> char" where
  "digit_char d = char_of (48 + d)"

function show_nat :: "nat \<Rightarrow> string" where
  "show_nat n = (if n < 10 then [digit_char n] else show_nat (n div 10) @ [digit_char (n mod 10)])"
  by pat_completeness auto
termination
  by (relation "measure (\<lambda>n. n)") auto

declare show_nat.simps [simp del]

definition show_int :: "int \<Rightarrow> string" where
  "show_int i = (if i < 0 then CHR ''-'' # show_nat (nat (- i)) else show_nat (nat i))"

fun join_sp :: "string list \<Rightarrow> string" where
  "join_sp [] = []"
| "join_sp [x] = x"
| "join_sp (x # y # r) = x @ '' '' @ join_sp (y # r)"

definition args_for_intensity :: "string \<Rightarrow> string list" where
  "args_for_intensity level0 =
     (let level = lower (if level0 = [] then ''high'' else level0) in
      if level = ''low'' then
        [''-c:v'', ''libx264'', ''-preset'', ''faster'', ''-threads'', ''0'']
      else if level = ''medium'' then
        [''-c:v'', ''libx264'', ''-preset'', ''slow'', ''-threads'', ''0'']
      else if level = ''max'' then
        [''-c:v'', ''libx264'', ''-preset'', ''placebo'', ''-tune'', ''film'', ''-threads'', ''0'',
         ''-x264-params'', ''me=tesa:subme=10:merange=64:ref=6:rc-lookahead=60'']
      else
        [''-c:v'', ''libx264'', ''-preset'', ''veryslow'', ''-threads'', ''0''])"

text \<open>The encoder process: what \<^verbatim>\<open>subprocess.run\<close> returns.\<close>

record proc =
  returncode :: int
  stderr :: string

text \<open>The lists \<^verbatim>\<open>video_args\<close> and \<^verbatim>\<open>cmd\<close> that \<^verbatim>\<open>run_ffmpeg\<close> builds.\<close>

definition video_args :: "preset_spec \<Rightarrow> string \<Rightarrow> string list" where
  "video_args spec intensity =
     [''-vf'', ''scale='' @ show_int (width spec) @ '':'' @ show_int (height spec)
                 @ '':flags=lanczos'']
     @ args_for_intensity intensity
     @ [''-crf'', show_int (crf spec), ''-pix_fmt'', ''yuv420p'',
        ''-movflags'', ''+faststart'', ''-an'']"

definition ffmpeg_cmd :: "preset_spec \<Rightarrow> string \<Rightarrow> string \<Rightarrow> string \<Rightarrow> string list" where
  "ffmpeg_cmd spec in_path out_path intensity =
     [''ffmpeg'', ''-y'', ''-hide_banner'', ''-loglevel'', ''error'', ''-i'', in_path]
     @ video_args spec intensity @ [out_path]"

definition run_ffmpeg ::
  "proc \<Rightarrow> string \<Rightarrow> string \<Rightarrow> string \<Rightarrow> string \<Rightarrow> world \<Rightarrow> (exn + string) \<times> world" where
  "run_ffmpeg pr in_path out_path preset intensity s =
     (case resolve preset of
        Inl e \<Rightarrow> (Inl e, s)
      | Inr spec \<Rightarrow>
        (let cmd = ffmpeg_cmd spec in_path out_path intensity;
             s1 = emit (Encode cmd) s
         in if returncode pr \<noteq> 0 then
              (Inl (RuntimeError (''ffmpeg failed ('' @ show_int (returncode pr) @ ''). Cmd: ''
                     @ join_sp cmd @ [CHR 0x0A] @ strip (stderr pr))), s1)
            else if returncode pr \<noteq> 0 then
              (Inl (RuntimeError (if strip (stderr pr) = [] then ''ffmpeg failed''
                                  else strip (stderr pr))), s1)
            else (Inr out_path, s1)))"

subsection \<open>\<^verbatim>\<open>common/config.py\<close>\<close>

type_synonym environ = "string \<rightharpoonup> string"

definition getenv :: "environ \<Rightarrow> string \<Rightarrow> string option" where
  "getenv env k = env k"

definition getenv_default :: "environ \<Rightarrow> string \<Rightarrow> string \<Rightarrow> string" where
  "getenv_default env k d = (case env k of None \<Rightarrow> d | Some v \<Rightarrow> v)"

text \<open>\<^verbatim>\<open>int(s)\<close> on a string: surrounding whitespace, an optional sign, decimal digits
  with single underscores between them; anything else raises \<^verbatim>\<open>ValueError\<close>.\<close>

definition is_digit :: "char \<Rightarrow> bool" where
  "is_digit c = (let n = (of_char c :: nat) in 48 \<le> n \<and> n \<le> 57)"

fun digits_val :: "nat \<Rightarrow> string \<Rightarrow> nat option" where
  "digits_val acc [] = Some acc"
| "digits_val acc (c # cs) =
     (if is_digit c then digits_val (10 * acc + (of_char c - 48)) cs
      else if c = CHR ''_''
        then (case cs of [] \<Rightarrow> None
              | c' # _ \<Rightarrow> if is_digit c' then digits_val acc cs else None)
      else None)"

definition py_int :: "string \<Rightarrow> exn + int" where
  "py_int s =
     (let t = strip s;
          (neg, body) = (case t of
                           [] \<Rightarrow> (False, [])
                         | c # r \<Rightarrow> if c = CHR ''-'' then (True, r)
                                    else if c = CHR ''+'' then (False, r) else (False, t));
          bad = Inl (ValueError (''invalid literal for int() with base 10: ''
                                  @ [CHR 0x27] @ s @ [CHR 0x27]))
      in case body of
           [] \<Rightarrow> bad
         | c # _ \<Rightarrow>
           if is_digit c then
             (case digits_val 0 body of
                None \<Rightarrow> bad
              | Some n \<Rightarrow> Inr (if neg then - int n else int n))
           else bad)"

record config =
  AWS_REGION :: string
  S3_BUCKET :: "string option"
  SQS_URL :: "string option"
  DLQ_URL :: "string option"
  DDB_JOBS_TABLE :: string
  JWT_SECRET :: string
  JWT_ALG :: string
  PRESIGN_EXP_SECS :: int
  MAX_VIS_TIMEOUT :: int

text \<open>The module body, run at import: the two \<^verbatim>\<open>int(...)\<close> may raise.\<close>

definition load_config :: "environ \<Rightarrow> exn + config" where
  "load_config env =
     (case py_int (getenv_default env ''PRESIGN_EXP_SECS'' ''900'') of
        Inl e \<Rightarrow> Inl e
      | Inr presign \<Rightarrow>
        (case py_int (getenv_default env ''MAX_VIS_TIMEOUT'' ''1800'') of
           Inl e \<Rightarrow> Inl e
         | Inr vis \<Rightarrow>
           Inr \<lparr>AWS_REGION = getenv_default env ''AWS_REGION'' ''ap-southeast-2'',
                S3_BUCKET = getenv env ''S3_BUCKET'',
                SQS_URL = getenv env ''SQS_URL'',
                DLQ_URL = getenv env ''DLQ_URL'',
                DDB_JOBS_TABLE = getenv_default env ''DDB_JOBS_TABLE'' ''a3_jobs'',
                JWT_SECRET = getenv_default env ''JWT_SECRET'' ''dev-secret-change-me'',
                JWT_ALG = ''HS256'',
                PRESIGN_EXP_SECS = presign,
                MAX_VIS_TIMEOUT = vis\<rparr>))"

text \<open>\<^verbatim>\<open>not v\<close> holds of \<^verbatim>\<open>None\<close> and of the empty string.\<close>

definition truthy :: "string option \<Rightarrow> bool" where
  "truthy v = (case v of None \<Rightarrow> False | Some x \<Rightarrow> x \<noteq> [])"

fun join_comma :: "string list \<Rightarrow> string" where
  "join_comma [] = []"
| "join_comma [x] = x"
| "join_comma (x # y # r) = x @ '', '' @ join_comma (y # r)"

definition repr_list :: "string list \<Rightarrow> string" where
  "repr_list xs = ''['' @ join_comma (map (\<lambda>x. [CHR 0x27] @ x @ [CHR 0x27]) xs) @ '']''"

definition assert_core_env :: "config \<Rightarrow> exn option" where
  "assert_core_env c =
     (let missing = map fst (filter (\<lambda>(k, v). \<not> truthy v)
            [(''S3_BUCKET'', S3_BUCKET c), (''SQS_URL'', SQS_URL c),
             (''DDB_JOBS_TABLE'', Some (DDB_JOBS_TABLE c))])
      in if missing \<noteq> [] then
           Some (RuntimeError (''Missing required env vars: '' @ repr_list missing))
         else None)"

subsection \<open>\<^verbatim>\<open>api/dal.py\<close>\<close>

definition now_iso :: "world \<Rightarrow> string \<times> world" where
  "now_iso s = (clock s (tick s), s\<lparr>tick := Suc (tick s)\<rparr>)"

text \<open>\<^verbatim>\<open>put_item\<close> stores the whole item under its key and refuses an item without one.\<close>

definition put_job :: "item \<Rightarrow> world \<Rightarrow> exn option \<times> world" where
  "put_job item0 s =
     (let (t, s1) = now_iso s;
          item = (if item0 ''createdAt'' = None then item0(''createdAt'' \<mapsto> t) else item0)
      in case item ''jobId'' of
           None \<Rightarrow> (Some (ClientError ''ValidationException'' ''missing key jobId''), s1)
         | Some job_id \<Rightarrow>
             (None, (emit (PutItem job_id) s1)\<lparr>jobs := (jobs s1)(job_id \<mapsto> item)\<rparr>))"

definition get_job :: "string \<Rightarrow> world \<Rightarrow> item option \<times> world" where
  "get_job job_id s = (jobs s job_id, emit (GetItem job_id) s)"

text \<open>\<^verbatim>\<open>update_job\<close> sends the condition
  \<^verbatim>\<open>attribute_not_exists(jobId) OR #st <> :done\<close> and lets a \<^verbatim>\<open>ClientError\<close> through;
  it returns the attributes of the item as stored after the update.\<close>

definition update_job ::
  "string \<Rightarrow> (string \<times> string) list \<Rightarrow> world \<Rightarrow> (exn + item option) \<times> world" where
  "update_job job_id fields0 s =
     (let (t, s1) = now_iso s;
          fields = AList.update ''updatedAt'' t fields0;
          names = map (\<lambda>(i, (k, v)). (K i, k)) (enumerate 1 fields);
          values = map (\<lambda>(i, (k, v)). (V i, v)) (enumerate 1 fields);
          update_expr = map (\<lambda>(i, (k, v)). (K i, V i)) (enumerate 1 fields);
          names' = AList.update St ''status'' names;
          values' = AList.update Done ''DONE'' values;
          s2 = emit (UpdateItem job_id fields) s1
      in case update_item job_id update_expr
                (Some (Or (Attribute_not_exists ''jobId'') (Ne St Done)))
                names' values' (jobs s2) of
           Inl e \<Rightarrow> (Inl e, s2)
         | Inr t' \<Rightarrow> (Inr (t' job_id), s2\<lparr>jobs := t'\<rparr>))"

subsection \<open>\<^verbatim>\<open>worker/worker.py\<close>: \<^verbatim>\<open>process_message\<close> and \<^verbatim>\<open>main\<close>\<close>

text \<open>What the outside world answers during one delivery: the temporary directory, the
  result of the download, of the encoder, of the upload and of the queue delete
  (\<open>None\<close>: the call returns).\<close>

record outcomes =
  td :: string
  download_res :: "exn option"
  ffmpeg :: proc
  upload_res :: "exn option"
  delete_res :: "exn option"

text \<open>The body of the \<^verbatim>\<open>try\<close> (lines 121 to 135).\<close>

definition try_body ::
  "outcomes \<Rightarrow> string \<Rightarrow> string \<Rightarrow> string \<Rightarrow> string \<Rightarrow> string \<Rightarrow> world \<Rightarrow> exn option \<times> world" where
  "try_body oc job_id preset local_in local_out receipt_handle s =
     (let s1 = emit (StartExtender receipt_handle) s;
          (r, s2) = run_ffmpeg (ffmpeg oc) local_in local_out preset ''high'' s1
      in case r of
           Inl e \<Rightarrow> (Some e, s2)
         | Inr _ \<Rightarrow>
           (let outputKey = ''output/'' @ job_id @ ''.mp4'';
                (u, s3) = worker_upload_to_s3 (upload_res oc) local_out outputKey s2
            in case u of
                 Some e \<Rightarrow> (Some e, s3)
               | None \<Rightarrow>
                 (let (t, s4) = worker_now s3;
                      (w, s5) = worker_update_job job_id
                         [(''status'', ''DONE''), (''outputKey'', outputKey), (''finishedAt'', t)] s4
                  in case w of
                       Some e \<Rightarrow> (Some e, s5)
                     | None \<Rightarrow> worker_delete_msg (delete_res oc) receipt_handle s5)))"

text \<open>The message body as \<^verbatim>\<open>json.loads\<close> returns it: an object with string fields (the
  message schema) or another JSON value.\<close>

datatype json = JObject "string \<rightharpoonup> string" | JOther

definition process_message :: "outcomes \<Rightarrow> json \<Rightarrow> string \<Rightarrow> world \<Rightarrow> exn option \<times> world" where
  "process_message oc msg_body receipt_handle s =
     (case msg_body of
        JOther \<Rightarrow> (Some (TypeError ''object is not subscriptable''), s)
      | JObject d \<Rightarrow>
        (case d ''jobId'' of
           None \<Rightarrow> (Some (KeyError ''jobId''), s)
         | Some job_id \<Rightarrow>
           (case d ''inputKey'' of
              None \<Rightarrow> (Some (KeyError ''inputKey''), s)
            | Some inputKey \<Rightarrow>
              (let preset = (case d ''preset'' of None \<Rightarrow> ''mp4-720p'' | Some p \<Rightarrow> p);
                   (job, s1) = worker_get_job job_id s
               in if (case job of None \<Rightarrow> False
                      | Some j \<Rightarrow> j \<noteq> Map.empty
                          \<and> (j ''status'' = Some ''RUNNING'' \<or> j ''status'' = Some ''DONE''))
                  then worker_delete_msg (delete_res oc) receipt_handle s1
                  else
                    (let (t, s2) = worker_now s1;
                         (w, s3) = worker_update_job job_id
                            [(''status'', ''RUNNING''), (''startedAt'', t)] s2
                     in case w of
                          Some e \<Rightarrow> (Some e, s3)
                        | None \<Rightarrow>
                          (let local_in = td oc @ ''/input.mp4'';
                               local_out = td oc @ ''/output.mp4'';
                               (dl, s4) = worker_download_from_s3 (download_res oc) inputKey local_in s3
                           in case dl of
                                Some e \<Rightarrow> (Some e, s4)
                              | None \<Rightarrow>
                                (let (r, s5) = try_body oc job_id preset local_in local_out
                                                 receipt_handle s4;
                                     (r', s6) =
                                       (case r of
                                          None \<Rightarrow> (None, s5)
                                        | Some e \<Rightarrow>
                                          (let (t', s5') = worker_now s5
                                           in worker_update_job job_id
                                                [(''status'', ''FAILED''), (''error'', str_exn e),
                                                 (''finishedAt'', t')] s5'))
                                 in (r', emit (StopExtender receipt_handle) s6))))))))"

text \<open>An SQS message: \<open>Body\<close> is \<open>None\<close> when \<^verbatim>\<open>json.loads\<close> raises on it. A delivery is
  a message with the outcomes met while it is processed; a response of
  \<^verbatim>\<open>receive_message\<close> is a list of deliveries. \<open>handle_msgs\<close> is the \<^verbatim>\<open>for\<close> loop of
  \<^verbatim>\<open>main\<close>, \<open>poll_loop\<close> its \<^verbatim>\<open>while True\<close> run over the responses received so far
  (each \<^verbatim>\<open>receive_message\<close> is recorded with its three numeric arguments):
  \<open>(None, s)\<close> is a loop still polling, \<open>(Some e, s)\<close> a loop that \<open>e\<close> has ended.\<close>

record sqs_message =
  Body :: "json option"
  ReceiptHandle :: string

type_synonym delivery = "sqs_message \<times> outcomes"

fun handle_msgs :: "delivery list \<Rightarrow> world \<Rightarrow> exn option \<times> world" where
  "handle_msgs [] s = (None, s)"
| "handle_msgs ((m, oc) # ms) s =
     (case Body m of
        None \<Rightarrow>
          (case worker_delete_msg (delete_res oc) (ReceiptHandle m) s of
             (Some e, s') \<Rightarrow> (Some e, s')
           | (None, s') \<Rightarrow> handle_msgs ms s')
      | Some body \<Rightarrow>
          (case process_message oc body (ReceiptHandle m) s of
             (Some e, s') \<Rightarrow> (Some e, s')
           | (None, s') \<Rightarrow> handle_msgs ms s'))"

fun poll_loop :: "config \<Rightarrow> delivery list list \<Rightarrow> world \<Rightarrow> exn option \<times> world" where
  "poll_loop cfg [] s = (None, s)"
| "poll_loop cfg (msgs # rest) s =
     (let s1 = emit (ReceiveMessage 1 20 (MAX_VIS_TIMEOUT cfg)) s
      in if msgs = [] then poll_loop cfg rest s1
         else (case handle_msgs msgs s1 of
                 (Some e, s') \<Rightarrow> (Some e, s')
               | (None, s') \<Rightarrow> poll_loop cfg rest s'))"

text \<open>\<^verbatim>\<open>main\<close>, with the import of \<^verbatim>\<open>common.config\<close> that precedes it: an exception of
  either ends the process before the first poll.\<close>

definition main :: "environ \<Rightarrow> delivery list list \<Rightarrow> world \<Rightarrow> exn option \<times> world" where
  "main env resps s =
     (case load_config env of
        Inl e \<Rightarrow> (Some e, s)
      | Inr cfg \<Rightarrow>
        (case assert_core_env cfg of
           Some e \<Rightarrow> (Some e, s)
         | None \<Rightarrow> poll_loop cfg resps s))"

section \<open>Vocabulary of the properties\<close>

text \<open>The parameters a preset name resolves to, the guard of \<^verbatim>\<open>process_message\<close> read
  on the store, the item an update starts from, and one attribute of a stored job.\<close>

definition spec_of :: "string \<Rightarrow> preset_spec" where
  "spec_of p = (case PRESET_SPECS p of
                  None \<Rightarrow> \<lparr>width = 1280, height = 720, crf = 23\<rparr>
                | Some sp \<Rightarrow> sp)"

definition claimed :: "world \<Rightarrow> string \<Rightarrow> bool" where
  "claimed s jid = (case jobs s jid of
                      None \<Rightarrow> False
                    | Some j \<Rightarrow> j ''status'' = Some ''RUNNING'' \<or> j ''status'' = Some ''DONE'')"

definition stored :: "world \<Rightarrow> string \<Rightarrow> item" where
  "stored s jid = (case jobs s jid of None \<Rightarrow> [''jobId'' \<mapsto> jid] | Some i \<Rightarrow> i)"

definition attr :: "world \<Rightarrow> string \<Rightarrow> string \<Rightarrow> string option" where
  "attr s jid a = (case jobs s jid of None \<Rightarrow> None | Some i \<Rightarrow> i a)"

text \<open>The world after the guard's read and the \<open>RUNNING\<close> write, and after a \<open>FAILED\<close>
  write for the exception \<open>e\<close>.\<close>

definition running :: "world \<Rightarrow> string \<Rightarrow> world" where
  "running s jid =
     s\<lparr>tick := tick s + 2,
       jobs := (jobs s)(jid \<mapsto> (stored s jid)(''status'' \<mapsto> ''RUNNING'',
                 ''startedAt'' \<mapsto> clock s (tick s), ''updatedAt'' \<mapsto> clock s (Suc (tick s)))),
       trace := trace s @ [GetItem jid,
                 UpdateItem jid [(''status'', ''RUNNING''), (''startedAt'', clock s (tick s)),
                                 (''updatedAt'', clock s (Suc (tick s)))]]\<rparr>"

definition failed :: "exn \<Rightarrow> world \<Rightarrow> string \<Rightarrow> world" where
  "failed e s jid =
     s\<lparr>tick := tick s + 2,
       jobs := (jobs s)(jid \<mapsto> (stored s jid)(''status'' \<mapsto> ''FAILED'',
                 ''error'' \<mapsto> str_exn e,
                 ''finishedAt'' \<mapsto> clock s (tick s), ''updatedAt'' \<mapsto> clock s (Suc (tick s)))),
       trace := trace s @
                 [UpdateItem jid [(''status'', ''FAILED''), (''error'', str_exn e),
                                  (''finishedAt'', clock s (tick s)),
                                  (''updatedAt'', clock s (Suc (tick s)))]]\<rparr>"

text \<open>The status values written for one job by the updates of a trace, in order, and
  the moves of the status that the state machine of the worker allows: to \<open>RUNNING\<close>
  from anything but \<open>RUNNING\<close> and \<open>DONE\<close>, and from \<open>RUNNING\<close> to \<open>DONE\<close> or \<open>FAILED\<close>.\<close>

fun status_writes :: "string \<Rightarrow> effect list \<Rightarrow> string list" where
  "status_writes jid [] = []"
| "status_writes jid (UpdateItem j fs # es) =
     (if j = jid then (case map_of fs ''status'' of None \<Rightarrow> [] | Some v \<Rightarrow> [v]) else [])
     @ status_writes jid es"
| "status_writes jid (e # es) = status_writes jid es"

definition step_ok :: "string option \<Rightarrow> string \<Rightarrow> bool" where
  "step_ok a b =
     ((b = ''RUNNING'' \<and> a \<noteq> Some ''RUNNING'' \<and> a \<noteq> Some ''DONE'')
      \<or> (a = Some ''RUNNING'' \<and> (b = ''DONE'' \<or> b = ''FAILED'')))"

fun path_ok :: "string option \<Rightarrow> string list \<Rightarrow> bool" where
  "path_ok a [] = True"
| "path_ok a (b # bs) = (step_ok a b \<and> path_ok (Some b) bs)"

text \<open>The status after a list of writes, and the relation between the world before and
  after some deliveries that the proofs carry along: the trace has grown by \<open>new\<close>; the
  writes of \<open>new\<close> for the job form a path of allowed moves (when \<open>ok\<close>: no queue delete
  has failed); the stored status is the last one written; a record that was \<open>DONE\<close> is
  as it was.\<close>

definition last_status :: "string option \<Rightarrow> string list \<Rightarrow> string option" where
  "last_status a ws = (if ws = [] then a else Some (last ws))"

definition follows :: "string \<Rightarrow> bool \<Rightarrow> world \<Rightarrow> world \<Rightarrow> bool" where
  "follows jid ok s s' =
     (\<exists>new. trace s' = trace s @ new
        \<and> (ok \<longrightarrow> path_ok (attr s jid ''status'') (status_writes jid new))
        \<and> attr s' jid ''status'' = last_status (attr s jid ''status'') (status_writes jid new)
        \<and> (attr s jid ''status'' = Some ''DONE'' \<longrightarrow> jobs s' jid = jobs s jid))"

text \<open>Concrete inputs: a clock, a message for job \<open>J1\<close>, a store where \<open>J1\<close> is
  \<open>PENDING\<close> and one where it is \<open>DONE\<close>, and the outcomes of a delivery where every
  call returns.\<close>

definition ex_clock :: "nat \<Rightarrow> string" where
  "ex_clock n = ''2025-01-01T00:00:00Z''"

definition ex_body :: "string \<rightharpoonup> string" where
  "ex_body = [''jobId'' \<mapsto> ''J1'', ''inputKey'' \<mapsto> ''input/a.mp4'',
              ''preset'' \<mapsto> ''mp4-480p'', ''userId'' \<mapsto> ''u1'']"

definition ex_pending :: world where
  "ex_pending =
     \<lparr>jobs = [''J1'' \<mapsto> [''jobId'' \<mapsto> ''J1'', ''userId'' \<mapsto> ''u1'',
                         ''inputKey'' \<mapsto> ''input/a.mp4'', ''preset'' \<mapsto> ''mp4-480p'',
                         ''status'' \<mapsto> ''PENDING'']],
      clock = ex_clock, tick = 0, trace = []\<rparr>"

definition ex_done :: world where
  "ex_done =
     \<lparr>jobs = [''J1'' \<mapsto> [''jobId'' \<mapsto> ''J1'', ''userId'' \<mapsto> ''u1'',
                         ''inputKey'' \<mapsto> ''input/a.mp4'', ''preset'' \<mapsto> ''mp4-480p'',
                         ''status'' \<mapsto> ''DONE'', ''outputKey'' \<mapsto> ''output/J1.mp4'']],
      clock = ex_clock, tick = 0, trace = []\<rparr>"

definition ex_ok :: outcomes where
  "ex_ok = \<lparr>td = ''/tmp/tmpa1'', download_res = None,
            ffmpeg = \<lparr>returncode = 0, stderr = []\<rparr>,
            upload_res = None, delete_res = None\<rparr>"

text \<open>Deliveries where one call fails: the download (the object is missing), the encoder
  (exit status 1), the upload (the request times out) and the queue delete (the receipt
  handle has expired).\<close>

definition ex_download_fails :: outcomes where
  "ex_download_fails =
     ex_ok\<lparr>download_res := Some (ClientError ''404''
        ''An error occurred (404) when calling the HeadObject operation: Not Found'')\<rparr>"

definition ex_encode_fails :: outcomes where
  "ex_encode_fails =
     ex_ok\<lparr>ffmpeg := \<lparr>returncode = 1, stderr = ''Invalid data found when processing input''\<rparr>\<rparr>"


definition ex_delete_fails :: outcomes where
  "ex_delete_fails =
     ex_ok\<lparr>delete_res := Some (ClientError ''ReceiptHandleIsInvalid''
        ''An error occurred (ReceiptHandleIsInvalid) when calling the DeleteMessage operation'')\<rparr>"

definition ex_msg :: "string \<Rightarrow> sqs_message" where
  "ex_msg rh = \<lparr>Body = Some (JObject ex_body), ReceiptHandle = rh\<rparr>"

text \<open>Two deliveries of the message of \<open>J1\<close>: the encoder fails on the first, the
  redelivery succeeds.\<close>

definition ex_retry :: "delivery list" where
  "ex_retry = [(ex_msg ''rh-1'', ex_encode_fails), (ex_msg ''rh-2'', ex_ok)]"

text \<open>An environment that sets the bucket and the queue and nothing else.\<close>

definition ex_env :: environ where
  "ex_env = [''S3_BUCKET'' \<mapsto> ''a3-videos'', ''SQS_URL'' \<mapsto> ''https://sqs.example/a3-jobs'']"

section \<open>Properties\<close>

subsection \<open>The unconditional update of the worker\<close>

text \<open>The placeholders that \<^verbatim>\<open>_update_job\<close> numbers from 1 resolve to the fields they
  stand for, so the call always applies: the stored item (or a new one with the key)
  receives every field, and \<open>updatedAt\<close> among them.\<close>

lemma map_of_names_nth:
  "i < length ks \<Longrightarrow> map_of (map (\<lambda>(j, k). (K j, k)) (enumerate n ks)) (K (n + i)) = Some (ks ! i)"
proof (induction ks arbitrary: n i)
  case Nil then show ?case by simp
next
  case (Cons k ks)
  show ?case
  proof (cases i)
    case 0 then show ?thesis by simp
  next
    case (Suc j)
    with Cons.prems have "j < length ks" by simp
    from Cons.IH[OF this, of "Suc n"] Suc show ?thesis by simp
  qed
qed

lemma map_of_vals_nth:
  "i < length vs \<Longrightarrow> map_of (map (\<lambda>(j, v). (V j, v)) (enumerate n vs)) (V (n + i)) = Some (vs ! i)"
proof (induction vs arbitrary: n i)
  case Nil then show ?case by simp
next
  case (Cons v vs)
  show ?case
  proof (cases i)
    case 0 then show ?thesis by simp
  next
    case (Suc j)
    with Cons.prems have "j < length vs" by simp
    from Cons.IH[OF this, of "Suc n"] Suc show ?thesis by simp
  qed
qed

lemma resolve_sets_map:
  "\<forall>c \<in> set cs. names (fst c) = Some (f c) \<and> vals (snd c) = Some (g c) \<Longrightarrow>
   resolve_sets names vals cs = Some (map (\<lambda>c. (f c, g c)) cs)"
  by (induction cs) auto

lemma fst_names: "map fst (map (\<lambda>(j, k). (K j, k)) (enumerate n ks)) = map K [n..<n + length ks]"
proof (induction ks arbitrary: n)
  case Nil
  show ?case by simp
next
  case (Cons x ks)
  have "[n..<n + length (x # ks)] = n # [Suc n..<Suc n + length ks]"
    using upt_conv_Cons[of n "Suc n + length ks"] by (simp del: upt_Suc)
  with Cons.IH[of "Suc n"] show ?case by (simp del: upt_Suc)
qed

lemma fst_vals: "map fst (map (\<lambda>(j, v). (V j, v)) (enumerate n vs)) = map V [n..<n + length vs]"
proof (induction vs arbitrary: n)
  case Nil
  show ?case by simp
next
  case (Cons x vs)
  have "[n..<n + length (x # vs)] = n # [Suc n..<Suc n + length vs]"
    using upt_conv_Cons[of n "Suc n + length vs"] by (simp del: upt_Suc)
  with Cons.IH[of "Suc n"] show ?case by (simp del: upt_Suc)
qed

lemma resolve_sets_fields:
  "resolve_sets
     (map_of (map (\<lambda>(j, k). (K j, k)) (enumerate n (map fst fs))))
     (map_of (map (\<lambda>(j, v). (V j, v)) (enumerate n (map snd fs))))
     (zip (map fst (map (\<lambda>(j, k). (K j, k)) (enumerate n (map fst fs))))
          (map fst (map (\<lambda>(j, v). (V j, v)) (enumerate n (map snd fs)))))
   = Some fs"
proof -
  let ?idx = "[n..<n + length fs]"
  let ?names = "map_of (map (\<lambda>(j, k). (K j, k)) (enumerate n (map fst fs)))"
  let ?vals = "map_of (map (\<lambda>(j, v). (V j, v)) (enumerate n (map snd fs)))"
  let ?cs = "map (\<lambda>i. (K i, V i)) ?idx"
  let ?f = "\<lambda>c. case fst c of K i \<Rightarrow> fst (fs ! (i - n)) | St \<Rightarrow> []"
  let ?g = "\<lambda>c. case snd c of V i \<Rightarrow> snd (fs ! (i - n)) | Done \<Rightarrow> []"
  have cs: "zip (map fst (map (\<lambda>(j, k). (K j, k)) (enumerate n (map fst fs))))
          (map fst (map (\<lambda>(j, v). (V j, v)) (enumerate n (map snd fs)))) = ?cs"
    unfolding fst_names fst_vals by (simp add: zip_map_map zip_same_conv_map)
  have "resolve_sets ?names ?vals ?cs = Some (map (\<lambda>c. (?f c, ?g c)) ?cs)"
  proof (rule resolve_sets_map, rule ballI)
    fix c assume "c \<in> set ?cs"
    then obtain i where i: "n \<le> i" "i < n + length fs" and c: "c = (K i, V i)" by auto
    from i have lt: "i - n < length fs" and eq: "n + (i - n) = i" by auto
    from map_of_names_nth[of "i - n" "map fst fs" n] map_of_vals_nth[of "i - n" "map snd fs" n] lt eq
    show "?names (fst c) = Some (?f c) \<and> ?vals (snd c) = Some (?g c)"
      by (simp add: c)
  qed
  moreover have "map (\<lambda>c. (?f c, ?g c)) ?cs = fs"
    by (rule nth_equalityI) (simp_all add: nth_append)
  ultimately show ?thesis by (simp only: cs)
qed

lemma apply_sets_fold: "apply_sets fs it = fold (\<lambda>(a, x) i. i(a \<mapsto> x)) fs it"
  by (induction fs arbitrary: it) auto

lemma worker_update_job_eq:
  "worker_update_job job_id fields0 s =
     (let fields = AList.update ''updatedAt'' (clock s (tick s)) fields0 in
      (None, s\<lparr>tick := Suc (tick s),
              trace := trace s @ [UpdateItem job_id fields],
              jobs := (jobs s)(job_id \<mapsto> apply_sets fields
                        (case jobs s job_id of None \<Rightarrow> [''jobId'' \<mapsto> job_id] | Some i \<Rightarrow> i))\<rparr>))"
  apply (simp only: worker_update_job_def worker_now_def Let_def split_conv update_item_def resolve_sets_fields)
  apply (simp add: emit_def)
  done

subsection \<open>Preset resolution\<close>

lemma resolve_Inr:
  "resolve p = Inr (case PRESET_SPECS p of
                      None \<Rightarrow> \<lparr>width = 1280, height = 720, crf = 23\<rparr>
                    | Some sp \<Rightarrow> sp)"
  by (simp add: resolve_def PRESET_SPECS_def)

text \<open>
  Claim C8. Preset resolution is a function of the preset name alone:
  \<open>mp4-720p\<close> resolves to width 1280, height 720, crf 23, and every name that is
  not a key of \<open>PRESET_SPECS\<close> (such as \<open>unknown-preset\<close>) resolves, without an error,
  to exactly the parameters of \<open>mp4-720p\<close>.
\<close>

theorem preset_resolution:
  "resolve ''mp4-720p'' = Inr \<lparr>width = 1280, height = 720, crf = 23\<rparr>
   \<and> (\<forall>p. PRESET_SPECS p = None \<longrightarrow> resolve p = resolve ''mp4-720p'')"
  by (simp add: resolve_def PRESET_SPECS_def)

theorem preset_resolution_witness:
  "PRESET_SPECS ''unknown-preset'' = None
   \<and> resolve ''unknown-preset'' = Inr \<lparr>width = 1280, height = 720, crf = 23\<rparr>"
proof -
  have h: "PRESET_SPECS ''unknown-preset'' = None"
    by (simp add: PRESET_SPECS_def)
  from preset_resolution have "resolve ''unknown-preset'' = resolve ''mp4-720p''"
    using h by blast
  with preset_resolution h show ?thesis by simp
qed

subsection \<open>One delivery, case by case\<close>

text \<open>The encoder call, the update of the worker and the body of the \<^verbatim>\<open>try\<close> in closed
  form, then \<^verbatim>\<open>process_message\<close> for a job that the guard stops and for one that it
  lets through.\<close>

lemma run_ffmpeg_eq:
  "run_ffmpeg pr li lo p lvl s =
     (if returncode pr \<noteq> 0
      then Inl (RuntimeError (''ffmpeg failed ('' @ show_int (returncode pr) @ ''). Cmd: ''
                     @ join_sp (ffmpeg_cmd (spec_of p) li lo lvl) @ [CHR 0x0A] @ strip (stderr pr)))
      else Inr lo,
      s\<lparr>trace := trace s @ [Encode (ffmpeg_cmd (spec_of p) li lo lvl)]\<rparr>)"
  by (simp add: run_ffmpeg_def resolve_Inr spec_of_def emit_def Let_def)

lemma update_eq:
  "worker_update_job jid fs s =
     (None, s\<lparr>tick := Suc (tick s),
              trace := trace s @ [UpdateItem jid (AList.update ''updatedAt'' (clock s (tick s)) fs)],
              jobs := (jobs s)(jid \<mapsto> apply_sets (AList.update ''updatedAt'' (clock s (tick s)) fs) (stored s jid))\<rparr>)"
  by (simp add: worker_update_job_eq stored_def Let_def)

lemma try_body_encode_fails:
  assumes "returncode (ffmpeg oc) \<noteq> 0"
  shows "try_body oc jid p li lo rh s =
    (Some (RuntimeError (''ffmpeg failed ('' @ show_int (returncode (ffmpeg oc)) @ ''). Cmd: ''
                     @ join_sp (ffmpeg_cmd (spec_of p) li lo ''high'') @ [CHR 0x0A] @ strip (stderr (ffmpeg oc)))),
     s\<lparr>trace := trace s @ [StartExtender rh, Encode (ffmpeg_cmd (spec_of p) li lo ''high'')]\<rparr>)"
  using assms by (simp add: try_body_def run_ffmpeg_eq emit_def)

lemma try_body_upload_fails:
  assumes "returncode (ffmpeg oc) = 0" "upload_res oc = Some e"
  shows "try_body oc jid p li lo rh s =
    (Some e,
     s\<lparr>trace := trace s @ [StartExtender rh, Encode (ffmpeg_cmd (spec_of p) li lo ''high''),
                            Upload lo (''output/'' @ jid @ ''.mp4'')]\<rparr>)"
  using assms by (simp add: try_body_def run_ffmpeg_eq emit_def worker_upload_to_s3_def)

lemma try_body_uploaded:
  assumes "returncode (ffmpeg oc) = 0" "upload_res oc = None"
  shows "try_body oc jid p li lo rh s =
    (delete_res oc,
     s\<lparr>tick := tick s + 2,
       trace := trace s @ [StartExtender rh, Encode (ffmpeg_cmd (spec_of p) li lo ''high''),
                  Upload lo (''output/'' @ jid @ ''.mp4''),
                  UpdateItem jid [(''status'', ''DONE''), (''outputKey'', ''output/'' @ jid @ ''.mp4''),
                                  (''finishedAt'', clock s (tick s)), (''updatedAt'', clock s (Suc (tick s)))],
                  DeleteMsg rh],
       jobs := (jobs s)(jid \<mapsto> (stored s jid)(''status'' \<mapsto> ''DONE'', ''outputKey'' \<mapsto> ''output/'' @ jid @ ''.mp4'',
                                  ''finishedAt'' \<mapsto> clock s (tick s), ''updatedAt'' \<mapsto> clock s (Suc (tick s))))\<rparr>)"
  using assms by (simp add: try_body_def run_ffmpeg_eq emit_def worker_upload_to_s3_def worker_now_def update_eq
      worker_delete_msg_def stored_def Let_def)


lemma pm_claimed:
  assumes "d ''jobId'' = Some jid" "d ''inputKey'' = Some ik" "claimed s jid"
  shows "process_message oc (JObject d) rh s =
           (delete_res oc, s\<lparr>trace := trace s @ [GetItem jid, DeleteMsg rh]\<rparr>)"
  using assms
  by (auto simp add: process_message_def claimed_def worker_get_job_def worker_delete_msg_def emit_def
           split: option.splits)

lemma pm_unclaimed:
  assumes "d ''jobId'' = Some jid" "d ''inputKey'' = Some ik" "\<not> claimed s jid"
  shows "process_message oc (JObject d) rh s =
     (let p = (case d ''preset'' of None \<Rightarrow> ''mp4-720p'' | Some p \<Rightarrow> p);
          li = td oc @ ''/input.mp4''; lo = td oc @ ''/output.mp4'';
          s4 = emit (Download ik li) (running s jid) in
      case download_res oc of Some e \<Rightarrow> (Some e, s4)
      | None \<Rightarrow>
        (case try_body oc jid p li lo rh s4 of
           (None, s5) \<Rightarrow> (None, emit (StopExtender rh) s5)
         | (Some e, s5) \<Rightarrow> (None, emit (StopExtender rh) (failed e s5 jid))))"
  using assms
  by (auto simp add: process_message_def claimed_def worker_get_job_def emit_def
        worker_now_def update_eq worker_download_from_s3_def running_def failed_def stored_def Let_def
           split: option.splits prod.splits)

subsection \<open>Redundant deliveries\<close>

text \<open>
  Claim C4. When the message names a job whose stored status is \<open>RUNNING\<close> or \<open>DONE\<close> at
  the guard's read (the message has its \<open>jobId\<close> and \<open>inputKey\<close>, so the read is
  reached), processing reads the job, requests the delete of the message and does
  nothing else: the world afterwards is the world before with these two calls added
  to the trace, so the encoder is not invoked and the job table is not written. The
  result is that of the delete call.
\<close>

theorem redundant_delivery:
  assumes "d ''jobId'' = Some jid" and "d ''inputKey'' = Some ik"
    and "jobs s jid = Some j"
    and "j ''status'' = Some ''RUNNING'' \<or> j ''status'' = Some ''DONE''"
  shows "process_message oc (JObject d) rh s =
           (delete_res oc, s\<lparr>trace := trace s @ [GetItem jid, DeleteMsg rh]\<rparr>)"
proof -
  from assms(3,4) have "claimed s jid"
    by (simp add: claimed_def)
  with assms(1,2) show ?thesis
    by (rule pm_claimed)
qed

theorem redundant_delivery_witness:
  "ex_body ''jobId'' = Some ''J1'' \<and> ex_body ''inputKey'' = Some ''input/a.mp4''
   \<and> attr ex_done ''J1'' ''status'' = Some ''DONE''
   \<and> process_message ex_ok (JObject ex_body) ''rh-1'' ex_done =
        (None, ex_done\<lparr>trace := [GetItem ''J1'', DeleteMsg ''rh-1'']\<rparr>)"
proof -
  let ?j = "[''jobId'' \<mapsto> ''J1'', ''userId'' \<mapsto> ''u1'',
             ''inputKey'' \<mapsto> ''input/a.mp4'', ''preset'' \<mapsto> ''mp4-480p'',
             ''status'' \<mapsto> ''DONE'', ''outputKey'' \<mapsto> ''output/J1.mp4'']"
  have a: "ex_body ''jobId'' = Some ''J1''" and b: "ex_body ''inputKey'' = Some ''input/a.mp4''"
    by (simp_all add: ex_body_def)
  have c: "jobs ex_done ''J1'' = Some ?j"
    by (simp add: ex_done_def)
  have e: "?j ''status'' = Some ''RUNNING'' \<or> ?j ''status'' = Some ''DONE''"
    by simp
  from redundant_delivery [OF a b c e, of ex_ok "''rh-1''"] a b
  show ?thesis
    by (simp add: attr_def ex_done_def ex_ok_def)
qed

subsection \<open>A message without its job fields\<close>

text \<open>
  Claim C10. When the body parses to a JSON object that lacks \<open>jobId\<close> or \<open>inputKey\<close>,
  \<^verbatim>\<open>process_message\<close> raises \<^verbatim>\<open>KeyError\<close> for the first missing key and leaves the world as
  it was (no table write, no queue call); the \<^verbatim>\<open>for\<close> loop of \<^verbatim>\<open>main\<close> does not catch
  it, so the messages after it are not handled, and the polling loop ends with that
  exception, whatever responses would have followed.
\<close>

theorem missing_field_halts:
  assumes "Body m = Some (JObject d)"
    and "d ''jobId'' = None \<or> d ''inputKey'' = None"
  shows "process_message oc (JObject d) (ReceiptHandle m) s =
           (Some (KeyError (if d ''jobId'' = None then ''jobId'' else ''inputKey'')), s)
     \<and> handle_msgs ((m, oc) # rest) s =
           (Some (KeyError (if d ''jobId'' = None then ''jobId'' else ''inputKey'')), s)
     \<and> poll_loop cfg (((m, oc) # rest) # resps) s =
           (Some (KeyError (if d ''jobId'' = None then ''jobId'' else ''inputKey'')),
            s\<lparr>trace := trace s @ [ReceiveMessage 1 20 (MAX_VIS_TIMEOUT cfg)]\<rparr>)"
proof -
  let ?k = "if d ''jobId'' = None then ''jobId'' else ''inputKey''"
  have pm: "\<And>s. process_message oc (JObject d) (ReceiptHandle m) s = (Some (KeyError ?k), s)"
    using assms(2) by (auto simp add: process_message_def split: option.splits)
  have hm: "\<And>s. handle_msgs ((m, oc) # rest) s = (Some (KeyError ?k), s)"
    using assms(1) by (simp add: pm)
  have "poll_loop cfg (((m, oc) # rest) # resps) s =
          (Some (KeyError ?k), s\<lparr>trace := trace s @ [ReceiveMessage 1 20 (MAX_VIS_TIMEOUT cfg)]\<rparr>)"
    by (simp add: hm emit_def Let_def del: handle_msgs.simps)
  with pm hm show ?thesis by blast
qed

theorem missing_field_halts_witness:
  "handle_msgs
     [(\<lparr>Body = Some (JObject [''inputKey'' \<mapsto> ''input/a.mp4'']), ReceiptHandle = ''rh-1''\<rparr>, ex_ok),
      (\<lparr>Body = Some (JObject ex_body), ReceiptHandle = ''rh-2''\<rparr>, ex_ok)]
     ex_pending
   = (Some (KeyError ''jobId''), ex_pending)"
proof -
  let ?d = "[''inputKey'' \<mapsto> ''input/a.mp4'']"
  let ?m = "\<lparr>Body = Some (JObject ?d), ReceiptHandle = ''rh-1''\<rparr>"
  have a: "Body ?m = Some (JObject ?d)"
    by simp
  have b: "?d ''jobId'' = None \<or> ?d ''inputKey'' = None"
    by simp
  have k: "(if ?d ''jobId'' = None then ''jobId'' else ''inputKey'') = ''jobId''"
    by simp
  from missing_field_halts [OF a b, where oc = ex_ok and s = ex_pending
         and rest = "[(\<lparr>Body = Some (JObject ex_body), ReceiptHandle = ''rh-2''\<rparr>, ex_ok)]"]
  have "handle_msgs
     [(?m, ex_ok), (\<lparr>Body = Some (JObject ex_body), ReceiptHandle = ''rh-2''\<rparr>, ex_ok)]
     ex_pending
   = (Some (KeyError (if ?d ''jobId'' = None then ''jobId'' else ''inputKey'')), ex_pending)"
    by blast
  then show ?thesis
    by (simp only: k)
qed

subsection \<open>Startup validation\<close>

lemma py_int_900: "py_int ''900'' = Inr 900"
  by code_simp

lemma py_int_1800: "py_int ''1800'' = Inr 1800"
  by code_simp

lemma assert_core_env_iff:
  "(assert_core_env c \<noteq> None) =
     (\<not> truthy (S3_BUCKET c) \<or> \<not> truthy (SQS_URL c) \<or> DDB_JOBS_TABLE c = [])"
  by (auto simp add: assert_core_env_def truthy_def Let_def)

lemma ex_env_config:
  "load_config ex_env =
     Inr \<lparr>AWS_REGION = ''ap-southeast-2'',
          S3_BUCKET = Some ''a3-videos'',
          SQS_URL = Some ''https://sqs.example/a3-jobs'',
          DLQ_URL = None,
          DDB_JOBS_TABLE = ''a3_jobs'',
          JWT_SECRET = ''dev-secret-change-me'',
          JWT_ALG = ''HS256'',
          PRESIGN_EXP_SECS = 900,
          MAX_VIS_TIMEOUT = 1800\<rparr>"
  by (simp add: load_config_def ex_env_def getenv_def getenv_default_def py_int_900 py_int_1800)

text \<open>
  Claim C9 as stated fails: with only the bucket and the queue set (no job-table
  identifier, no lease ceiling, no poll-wait value in the environment) the process
  passes validation and polls, with the table name \<open>a3_jobs\<close>, the ceiling 1800 and a
  wait of 20 seconds.
\<close>

theorem absent_config_not_fatal:
  "ex_env ''DDB_JOBS_TABLE'' = None \<and> ex_env ''MAX_VIS_TIMEOUT'' = None
   \<and> main ex_env [[]] ex_pending = (None, ex_pending\<lparr>trace := [ReceiveMessage 1 20 1800]\<rparr>)"
  by (simp add: main_def ex_env_config assert_core_env_def truthy_def emit_def ex_pending_def, simp add: ex_env_def)

text \<open>
  Claim C9, amended. Once the module has loaded, \<^verbatim>\<open>assert_core_env\<close> raises, and \<^verbatim>\<open>main\<close>
  ends with that exception before any poll, exactly when \<open>S3_BUCKET\<close> or \<open>SQS_URL\<close> is
  absent or empty or \<open>DDB_JOBS_TABLE\<close> is set to the empty string. An absent
  \<open>DDB_JOBS_TABLE\<close> stands for \<open>a3_jobs\<close> and an absent \<open>MAX_VIS_TIMEOUT\<close> for 1800, and
  neither absence is fatal; the poll wait is the constant 20 of the receive call and
  is not read from the environment.
\<close>

theorem startup_validation:
  assumes "load_config env = Inr cfg"
  shows "(assert_core_env cfg \<noteq> None) =
           (\<not> truthy (env ''S3_BUCKET'') \<or> \<not> truthy (env ''SQS_URL'')
            \<or> env ''DDB_JOBS_TABLE'' = Some [])
     \<and> (env ''DDB_JOBS_TABLE'' = None \<longrightarrow> DDB_JOBS_TABLE cfg = ''a3_jobs'')
     \<and> (env ''MAX_VIS_TIMEOUT'' = None \<longrightarrow> MAX_VIS_TIMEOUT cfg = 1800)
     \<and> (assert_core_env cfg \<noteq> None \<longrightarrow> main env resps s = (assert_core_env cfg, s))
     \<and> (assert_core_env cfg = None \<longrightarrow>
          main env [[]] s = (None, s\<lparr>trace := trace s @ [ReceiveMessage 1 20 (MAX_VIS_TIMEOUT cfg)]\<rparr>))"
proof -
  from assms obtain presign vis where
    p: "py_int (getenv_default env ''PRESIGN_EXP_SECS'' ''900'') = Inr presign" and
    v: "py_int (getenv_default env ''MAX_VIS_TIMEOUT'' ''1800'') = Inr vis" and
    c: "cfg = \<lparr>AWS_REGION = getenv_default env ''AWS_REGION'' ''ap-southeast-2'',
                S3_BUCKET = getenv env ''S3_BUCKET'',
                SQS_URL = getenv env ''SQS_URL'',
                DLQ_URL = getenv env ''DLQ_URL'',
                DDB_JOBS_TABLE = getenv_default env ''DDB_JOBS_TABLE'' ''a3_jobs'',
                JWT_SECRET = getenv_default env ''JWT_SECRET'' ''dev-secret-change-me'',
                JWT_ALG = ''HS256'',
                PRESIGN_EXP_SECS = presign,
                MAX_VIS_TIMEOUT = vis\<rparr>"
    by (auto simp add: load_config_def split: sum.splits)
  have 1: "(assert_core_env cfg \<noteq> None) =
           (\<not> truthy (env ''S3_BUCKET'') \<or> \<not> truthy (env ''SQS_URL'')
            \<or> env ''DDB_JOBS_TABLE'' = Some [])"
    unfolding assert_core_env_iff
    by (auto simp add: c getenv_def getenv_default_def split: option.splits)
  have 2: "env ''DDB_JOBS_TABLE'' = None \<longrightarrow> DDB_JOBS_TABLE cfg = ''a3_jobs''"
    by (simp add: c getenv_default_def)
  have 3: "env ''MAX_VIS_TIMEOUT'' = None \<longrightarrow> MAX_VIS_TIMEOUT cfg = 1800"
    using v by (auto simp add: c getenv_default_def py_int_1800)
  have 4: "assert_core_env cfg \<noteq> None \<longrightarrow> main env resps s = (assert_core_env cfg, s)"
    using assms by (auto simp add: main_def)
  have 5: "assert_core_env cfg = None \<longrightarrow>
          main env [[]] s = (None, s\<lparr>trace := trace s @ [ReceiveMessage 1 20 (MAX_VIS_TIMEOUT cfg)]\<rparr>)"
    using assms by (simp add: main_def emit_def Let_def)
  from 1 2 3 4 5 show ?thesis by blast
qed

theorem startup_validation_witness:
  "load_config ex_env =
     Inr \<lparr>AWS_REGION = ''ap-southeast-2'',
          S3_BUCKET = Some ''a3-videos'',
          SQS_URL = Some ''https://sqs.example/a3-jobs'',
          DLQ_URL = None,
          DDB_JOBS_TABLE = ''a3_jobs'',
          JWT_SECRET = ''dev-secret-change-me'',
          JWT_ALG = ''HS256'',
          PRESIGN_EXP_SECS = 900,
          MAX_VIS_TIMEOUT = 1800\<rparr>
   \<and> main ex_env [[]] ex_pending = (None, ex_pending\<lparr>trace := [ReceiveMessage 1 20 1800]\<rparr>)"
proof -
  let ?cfg = "\<lparr>AWS_REGION = ''ap-southeast-2'',
          S3_BUCKET = Some ''a3-videos'',
          SQS_URL = Some ''https://sqs.example/a3-jobs'',
          DLQ_URL = None,
          DDB_JOBS_TABLE = ''a3_jobs'',
          JWT_SECRET = ''dev-secret-change-me'',
          JWT_ALG = ''HS256'',
          PRESIGN_EXP_SECS = 900,
          MAX_VIS_TIMEOUT = 1800\<rparr>"
  have ok: "assert_core_env ?cfg = None"
    by (simp add: assert_core_env_def truthy_def)
  from startup_validation [OF ex_env_config, where s = ex_pending] ok
  have "main ex_env [[]] ex_pending =
          (None, ex_pending\<lparr>trace := trace ex_pending @ [ReceiveMessage 1 20 (MAX_VIS_TIMEOUT ?cfg)]\<rparr>)"
    by blast
  then show ?thesis
    by (simp add: ex_env_config ex_pending_def)
qed


subsection \<open>Updates against a finished job\<close>

lemma ex_body_keys:
  "ex_body ''jobId'' = Some ''J1''" "ex_body ''inputKey'' = Some ''input/a.mp4''"
  "ex_body ''preset'' = Some ''mp4-480p''"
  by (simp_all add: ex_body_def)

lemma ex_pending_unclaimed: "\<not> claimed ex_pending ''J1''"
  by (simp add: claimed_def ex_pending_def)

text \<open>The update of the data access layer carries the condition: against the \<open>DONE\<close>
  record it raises \<^verbatim>\<open>ConditionalCheckFailedException\<close> and the table keeps the record.\<close>

lemma dal_update_job_rejects_done:
  "update_job ''J1''
     [(''status'', ''FAILED''), (''error'', ''boom''), (''finishedAt'', ''2025-01-01T00:05:00Z'')]
     ex_done
   = (Inl (ClientError ''ConditionalCheckFailedException'' ''The conditional request failed''),
      ex_done\<lparr>tick := 1,
              trace := [UpdateItem ''J1''
                 [(''status'', ''FAILED''), (''error'', ''boom''),
                  (''finishedAt'', ''2025-01-01T00:05:00Z''), (''updatedAt'', ''2025-01-01T00:00:00Z'')]]\<rparr>)"
  by (simp add: update_job_def now_iso_def update_item_def emit_def ex_done_def ex_clock_def Let_def)

text \<open>
  Claim C1, at the input where it fails. The update of the worker is sent without a
  condition expression, so the service never answers
  \<^verbatim>\<open>ConditionalCheckFailedException\<close> and the handler written for it never runs: against
  the stored record of \<open>J1\<close>, whose status is \<open>DONE\<close>, the update
  \<open>status = FAILED, error = boom, finishedAt\<close> returns normally and the record now
  reads \<open>FAILED\<close> with the error set.
\<close>

theorem done_record_overwritten:
  "attr ex_done ''J1'' ''status'' = Some ''DONE''
   \<and> fst (worker_update_job ''J1''
            [(''status'', ''FAILED''), (''error'', ''boom''), (''finishedAt'', ''2025-01-01T00:05:00Z'')]
            ex_done) = None
   \<and> attr (snd (worker_update_job ''J1''
            [(''status'', ''FAILED''), (''error'', ''boom''), (''finishedAt'', ''2025-01-01T00:05:00Z'')]
            ex_done)) ''J1'' ''status'' = Some ''FAILED''
   \<and> attr (snd (worker_update_job ''J1''
            [(''status'', ''FAILED''), (''error'', ''boom''), (''finishedAt'', ''2025-01-01T00:05:00Z'')]
            ex_done)) ''J1'' ''error'' = Some ''boom''"
  by (simp add: update_eq attr_def stored_def ex_done_def)

text \<open>
  Claim C7, at the input where it fails. \<open>J1\<close> is \<open>PENDING\<close> without \<open>outputKey\<close>; its
  message is processed with the download, the encoder and the upload succeeding, so
  \<open>DONE\<close> and \<open>outputKey\<close> are written; the queue delete then raises inside the
  \<^verbatim>\<open>try\<close>, the handler writes \<open>FAILED\<close> with the same unconditional update, and the
  stored record ends with status \<open>FAILED\<close> and \<open>outputKey\<close> present.
\<close>

theorem failed_record_keeps_output_key:
  "attr ex_pending ''J1'' ''status'' = Some ''PENDING''
   \<and> attr ex_pending ''J1'' ''outputKey'' = None
   \<and> fst (process_message ex_delete_fails (JObject ex_body) ''rh-1'' ex_pending) = None
   \<and> attr (snd (process_message ex_delete_fails (JObject ex_body) ''rh-1'' ex_pending))
        ''J1'' ''status'' = Some ''FAILED''
   \<and> attr (snd (process_message ex_delete_fails (JObject ex_body) ''rh-1'' ex_pending))
        ''J1'' ''outputKey'' = Some ''output/J1.mp4''"
proof -
  have u: "returncode (ffmpeg ex_delete_fails) = 0" "upload_res ex_delete_fails = None"
      "download_res ex_delete_fails = None"
    by (simp_all add: ex_delete_fails_def ex_ok_def)
  have d: "delete_res ex_delete_fails = Some (ClientError ''ReceiptHandleIsInvalid''
        ''An error occurred (ReceiptHandleIsInvalid) when calling the DeleteMessage operation'')"
    by (simp add: ex_delete_fails_def)
  have pm: "process_message ex_delete_fails (JObject ex_body) ''rh-1'' ex_pending =
     (None, emit (StopExtender ''rh-1'')
        (failed (ClientError ''ReceiptHandleIsInvalid''
           ''An error occurred (ReceiptHandleIsInvalid) when calling the DeleteMessage operation'')
          (snd (try_body ex_delete_fails ''J1'' ''mp4-480p''
                 (td ex_delete_fails @ ''/input.mp4'') (td ex_delete_fails @ ''/output.mp4'') ''rh-1''
                 (emit (Download ''input/a.mp4'' (td ex_delete_fails @ ''/input.mp4''))
                    (running ex_pending ''J1''))))
          ''J1''))"
    by (simp add: pm_unclaimed [OF ex_body_keys(1,2) ex_pending_unclaimed]
          try_body_uploaded [OF u(1,2)] u d ex_body_keys Let_def)
  show ?thesis
    by (simp add: pm try_body_uploaded [OF u(1,2)])
       (simp add: emit_def failed_def running_def attr_def stored_def ex_pending_def)
qed

subsection \<open>A failing download\<close>

text \<open>
  Claim C3, at the input where it fails. The download stands before the \<^verbatim>\<open>try\<close>: when
  it raises for the well-formed message of \<open>J1\<close>, the exception leaves
  \<^verbatim>\<open>process_message\<close> and \<^verbatim>\<open>main\<close>, the status stays \<open>RUNNING\<close>, and the message of the
  next response is never handled (the trace ends at the download).
\<close>

theorem download_failure_halts_consumer:
  "fst (main ex_env [[(ex_msg ''rh-1'', ex_download_fails)], [(ex_msg ''rh-2'', ex_ok)]] ex_pending)
     = Some (ClientError ''404''
        ''An error occurred (404) when calling the HeadObject operation: Not Found'')
   \<and> trace (snd (main ex_env [[(ex_msg ''rh-1'', ex_download_fails)], [(ex_msg ''rh-2'', ex_ok)]] ex_pending))
     = [ReceiveMessage 1 20 1800,
        GetItem ''J1'',
        UpdateItem ''J1'' [(''status'', ''RUNNING''), (''startedAt'', ''2025-01-01T00:00:00Z''),
                           (''updatedAt'', ''2025-01-01T00:00:00Z'')],
        Download ''input/a.mp4'' ''/tmp/tmpa1/input.mp4'']
   \<and> attr (snd (main ex_env [[(ex_msg ''rh-1'', ex_download_fails)], [(ex_msg ''rh-2'', ex_ok)]] ex_pending))
        ''J1'' ''status'' = Some ''RUNNING''"
proof -
  let ?s = "emit (ReceiveMessage 1 20 1800) ex_pending"
  have un: "\<not> claimed ?s ''J1''"
    by (simp add: claimed_def ex_pending_def emit_def)
  have d: "download_res ex_download_fails = Some (ClientError ''404''
        ''An error occurred (404) when calling the HeadObject operation: Not Found'')"
     and t: "td ex_download_fails = ''/tmp/tmpa1''"
    by (simp_all add: ex_download_fails_def ex_ok_def)
  have pm: "process_message ex_download_fails (JObject ex_body) ''rh-1'' ?s =
     (Some (ClientError ''404''
        ''An error occurred (404) when calling the HeadObject operation: Not Found''),
      emit (Download ''input/a.mp4'' ''/tmp/tmpa1/input.mp4'') (running ?s ''J1''))"
    by (simp add: pm_unclaimed [OF ex_body_keys(1,2) un] d t Let_def)
  show ?thesis
    by (simp add: main_def ex_env_config assert_core_env_def truthy_def Let_def ex_msg_def pm)
       (simp add: emit_def running_def attr_def stored_def ex_pending_def ex_clock_def)
qed

text \<open>
  Claim C6, at the input where it fails. After the failing download the record of \<open>J1\<close>
  has status \<open>RUNNING\<close>, no \<open>error\<close> and no \<open>finishedAt\<close>: the only status written is
  \<open>RUNNING\<close>.
\<close>

theorem download_failure_not_marked:
  "fst (process_message ex_download_fails (JObject ex_body) ''rh-1'' ex_pending)
     = Some (ClientError ''404''
        ''An error occurred (404) when calling the HeadObject operation: Not Found'')
   \<and> attr (snd (process_message ex_download_fails (JObject ex_body) ''rh-1'' ex_pending))
        ''J1'' ''status'' = Some ''RUNNING''
   \<and> attr (snd (process_message ex_download_fails (JObject ex_body) ''rh-1'' ex_pending))
        ''J1'' ''error'' = None
   \<and> attr (snd (process_message ex_download_fails (JObject ex_body) ''rh-1'' ex_pending))
        ''J1'' ''finishedAt'' = None
   \<and> status_writes ''J1''
        (trace (snd (process_message ex_download_fails (JObject ex_body) ''rh-1'' ex_pending)))
      = [''RUNNING'']"
proof -
  have d: "download_res ex_download_fails = Some (ClientError ''404''
        ''An error occurred (404) when calling the HeadObject operation: Not Found'')"
    by (simp add: ex_download_fails_def)
  have pm: "process_message ex_download_fails (JObject ex_body) ''rh-1'' ex_pending =
     (Some (ClientError ''404''
        ''An error occurred (404) when calling the HeadObject operation: Not Found''),
      emit (Download ''input/a.mp4'' (td ex_download_fails @ ''/input.mp4''))
        (running ex_pending ''J1''))"
    by (simp add: pm_unclaimed [OF ex_body_keys(1,2) ex_pending_unclaimed] d Let_def)
  show ?thesis
    by (simp add: pm)
       (simp add: emit_def running_def attr_def stored_def ex_pending_def)
qed

subsection \<open>The moves of the stored status\<close>

lemma status_writes_append:
  "status_writes jid (xs @ ys) = status_writes jid xs @ status_writes jid ys"
  by (induction jid xs rule: status_writes.induct) simp_all

lemma path_ok_append:
  "path_ok a (xs @ ys) = (path_ok a xs \<and> path_ok (last_status a xs) ys)"
  by (induction xs arbitrary: a) (simp_all add: last_status_def)

lemma last_status_append:
  "last_status a (xs @ ys) = last_status (last_status a xs) ys"
  by (simp add: last_status_def)

lemma follows_refl: "follows jid ok s s"
  by (simp add: follows_def last_status_def)

lemma follows_weaken: "follows jid ok s s' \<Longrightarrow> (ok' \<longrightarrow> ok) \<Longrightarrow> follows jid ok' s s'"
  by (auto simp add: follows_def)

lemma follows_trans:
  assumes "follows jid ok s s'" and "follows jid ok s' s''"
  shows "follows jid ok s s''"
proof -
  from assms(1) obtain n1 where 1: "trace s' = trace s @ n1"
    "ok \<longrightarrow> path_ok (attr s jid ''status'') (status_writes jid n1)"
    "attr s' jid ''status'' = last_status (attr s jid ''status'') (status_writes jid n1)"
    "attr s jid ''status'' = Some ''DONE'' \<longrightarrow> jobs s' jid = jobs s jid"
    by (auto simp add: follows_def)
  from assms(2) obtain n2 where 2: "trace s'' = trace s' @ n2"
    "ok \<longrightarrow> path_ok (attr s' jid ''status'') (status_writes jid n2)"
    "attr s'' jid ''status'' = last_status (attr s' jid ''status'') (status_writes jid n2)"
    "attr s' jid ''status'' = Some ''DONE'' \<longrightarrow> jobs s'' jid = jobs s' jid"
    by (auto simp add: follows_def)
  have d: "attr s jid ''status'' = Some ''DONE'' \<longrightarrow> attr s' jid ''status'' = Some ''DONE''"
    using 1(4) by (simp add: attr_def)
  have "trace s'' = trace s @ (n1 @ n2)"
    using 1(1) 2(1) by simp
  moreover have "ok \<longrightarrow> path_ok (attr s jid ''status'') (status_writes jid (n1 @ n2))"
    using 1(2,3) 2(2) by (simp add: status_writes_append path_ok_append)
  moreover have "attr s'' jid ''status'' =
      last_status (attr s jid ''status'') (status_writes jid (n1 @ n2))"
    using 1(3) 2(3) by (simp add: status_writes_append last_status_append)
  moreover have "attr s jid ''status'' = Some ''DONE'' \<longrightarrow> jobs s'' jid = jobs s jid"
    using 1(4) 2(4) d by simp
  ultimately show ?thesis
    unfolding follows_def by blast
qed

lemma follows_emit: "follows jid ok s (emit e s)" if "\<And>j fs. e \<noteq> UpdateItem j fs"
  using that by (cases e) (auto simp add: follows_def emit_def attr_def last_status_def)


lemma unclaimed_status:
  "\<not> claimed s jid \<Longrightarrow>
     attr s jid ''status'' \<noteq> Some ''RUNNING'' \<and> attr s jid ''status'' \<noteq> Some ''DONE''"
  by (simp add: claimed_def attr_def split: option.splits)

lemma pm_follows_unclaimed:
  assumes k: "d ''jobId'' = Some j" "d ''inputKey'' = Some ik" and u: "\<not> claimed s j"
  shows "follows jid (delete_res oc = None) s (snd (process_message oc (JObject d) rh s))"
proof -
  note st = unclaimed_status [OF u]
  show ?thesis
  proof (cases "download_res oc")
    case (Some e)
    with st show ?thesis
      by (auto simp add: pm_unclaimed [OF k u] Let_def follows_def emit_def running_def attr_def
            stored_def last_status_def step_ok_def)
  next
    case None
    note dl = this
    show ?thesis
    proof (cases "returncode (ffmpeg oc) = 0")
      case False
      with dl st show ?thesis
        by (auto simp add: pm_unclaimed [OF k u] try_body_encode_fails Let_def follows_def emit_def
              running_def failed_def attr_def stored_def last_status_def step_ok_def)
    next
      case True
      note rc = this
      show ?thesis
      proof (cases "upload_res oc")
        case (Some e)
        with dl rc st show ?thesis
          by (auto simp add: pm_unclaimed [OF k u] try_body_upload_fails Let_def follows_def emit_def
                running_def failed_def attr_def stored_def last_status_def step_ok_def)
      next
        case None
        note up = this
        show ?thesis
        proof (cases "delete_res oc")
          case None
          with dl rc up st show ?thesis
            by (auto simp add: pm_unclaimed [OF k u] try_body_uploaded Let_def follows_def emit_def
                  running_def attr_def stored_def last_status_def step_ok_def)
        next
          case (Some e)
          with dl rc up st show ?thesis
            by (auto simp add: pm_unclaimed [OF k u] try_body_uploaded Let_def follows_def emit_def
                  running_def failed_def attr_def stored_def last_status_def step_ok_def)
        qed
      qed
    qed
  qed
qed

lemma pm_follows:
  "follows jid (delete_res oc = None) s (snd (process_message oc body rh s))"
proof (cases body)
  case JOther
  then show ?thesis
    by (simp add: process_message_def follows_refl)
next
  case (JObject d)
  show ?thesis
  proof (cases "d ''jobId''")
    case None
    with JObject show ?thesis
      by (simp add: process_message_def follows_refl)
  next
    case (Some j)
    note j = this
    show ?thesis
    proof (cases "d ''inputKey''")
      case None
      with JObject j show ?thesis
        by (simp add: process_message_def follows_refl)
    next
      case (Some ik)
      show ?thesis
      proof (cases "claimed s j")
        case True
        then show ?thesis
          by (simp add: JObject pm_claimed [OF j Some] follows_def attr_def last_status_def)
      next
        case False
        then show ?thesis
          by (simp add: JObject pm_follows_unclaimed [OF j Some])
      qed
    qed
  qed
qed


lemma hm_follows:
  "follows jid (\<forall>(m, oc) \<in> set dls. delete_res oc = None) s (snd (handle_msgs dls s))"
proof (induction dls arbitrary: s)
  case Nil
  show ?case by (simp add: follows_refl)
next
  case (Cons dl dls)
  obtain m oc where dl: "dl = (m, oc)" by (cases dl)
  let ?ok = "\<forall>(m, oc) \<in> set (dl # dls). delete_res oc = None"
  have tail: "\<And>s'. follows jid ?ok s' (snd (handle_msgs dls s'))"
    by (rule follows_weaken [OF Cons.IH]) simp
  show ?case
  proof (cases "Body m")
    case None
    have step: "follows jid ?ok s (emit (DeleteMsg (ReceiptHandle m)) s)"
      by (rule follows_emit) simp
    show ?thesis
    proof (cases "delete_res oc")
      case None
      with \<open>Body m = None\<close> dl follows_trans [OF step tail] show ?thesis
        by (simp add: worker_delete_msg_def)
    next
      case (Some e)
      with \<open>Body m = None\<close> dl step show ?thesis
        by (simp add: worker_delete_msg_def)
    qed
  next
    case (Some body)
    let ?r = "process_message oc body (ReceiptHandle m) s"
    have step: "follows jid ?ok s (snd ?r)"
      by (rule follows_weaken [OF pm_follows]) (simp add: dl)
    show ?thesis
    proof (cases "fst ?r")
      case None
      then have "handle_msgs (dl # dls) s = handle_msgs dls (snd ?r)"
        using Some dl by (simp add: split_beta)
      with follows_trans [OF step tail] show ?thesis by simp
    next
      case (Some e)
      then have "handle_msgs (dl # dls) s = (Some e, snd ?r)"
        using \<open>Body m = Some body\<close> dl by (simp add: split_beta)
      with step show ?thesis by simp
    qed
  qed
qed

lemma claimed_attr:
  "claimed s j = (attr s j ''status'' = Some ''RUNNING'' \<or> attr s j ''status'' = Some ''DONE'')"
  by (simp add: claimed_def attr_def split: option.splits)

lemma writes_encode_failure:
  assumes "d ''jobId'' = Some j" and "d ''inputKey'' = Some ik" and "\<not> claimed s j"
    and "download_res oc = None" and "returncode (ffmpeg oc) \<noteq> 0"
  shows "fst (process_message oc (JObject d) rh s) = None"
    and "status_writes j (trace (snd (process_message oc (JObject d) rh s))) =
           status_writes j (trace s) @ [''RUNNING'', ''FAILED'']"
    and "attr (snd (process_message oc (JObject d) rh s)) j ''status'' = Some ''FAILED''"
  using assms(4,5)
  by (simp_all add: pm_unclaimed [OF assms(1,2,3)] try_body_encode_fails Let_def emit_def
        running_def failed_def attr_def stored_def status_writes_append)

lemma writes_success:
  assumes "d ''jobId'' = Some j" and "d ''inputKey'' = Some ik" and "\<not> claimed s j"
    and "download_res oc = None" and "returncode (ffmpeg oc) = 0"
    and "upload_res oc = None" and "delete_res oc = None"
  shows "fst (process_message oc (JObject d) rh s) = None"
    and "status_writes j (trace (snd (process_message oc (JObject d) rh s))) =
           status_writes j (trace s) @ [''RUNNING'', ''DONE'']"
  using assms(4,5,6,7)
  by (simp_all add: pm_unclaimed [OF assms(1,2,3)] try_body_uploaded Let_def emit_def
        running_def attr_def stored_def status_writes_append)

text \<open>
  Claim C2 as stated fails: \<open>FAILED\<close> is not final. \<open>J1\<close> is \<open>PENDING\<close>; the encoder fails
  on the first delivery of its message and the message, left in the queue, is delivered
  again and succeeds. The statuses written are \<open>RUNNING, FAILED, RUNNING, DONE\<close>, and
  \<open>PENDING\<close> followed by them is a prefix neither of \<open>PENDING, RUNNING, DONE\<close> nor of
  \<open>PENDING, RUNNING, FAILED\<close>.
\<close>

theorem failed_job_runs_again:
  "attr ex_pending ''J1'' ''status'' = Some ''PENDING''
   \<and> status_writes ''J1'' (trace (snd (handle_msgs ex_retry ex_pending)))
       = [''RUNNING'', ''FAILED'', ''RUNNING'', ''DONE'']
   \<and> \<not> prefix [''PENDING'', ''RUNNING'', ''FAILED'', ''RUNNING'', ''DONE'']
               [''PENDING'', ''RUNNING'', ''DONE'']
   \<and> \<not> prefix [''PENDING'', ''RUNNING'', ''FAILED'', ''RUNNING'', ''DONE'']
               [''PENDING'', ''RUNNING'', ''FAILED'']"
proof -
  let ?p1 = "process_message ex_encode_fails (JObject ex_body) ''rh-1'' ex_pending"
  let ?p2 = "process_message ex_ok (JObject ex_body) ''rh-2'' (snd ?p1)"
  have e: "download_res ex_encode_fails = None" "returncode (ffmpeg ex_encode_fails) \<noteq> 0"
    by (simp_all add: ex_encode_fails_def ex_ok_def)
  have o: "download_res ex_ok = None" "returncode (ffmpeg ex_ok) = 0"
      "upload_res ex_ok = None" "delete_res ex_ok = None"
    by (simp_all add: ex_ok_def)
  note first = writes_encode_failure [OF ex_body_keys(1,2) ex_pending_unclaimed e, of "''rh-1''"]
  have u: "\<not> claimed (snd ?p1) ''J1''"
    by (simp add: claimed_attr first(3))
  note second = writes_success [OF ex_body_keys(1,2) u o, of "''rh-2''"]
  have "handle_msgs ex_retry ex_pending = (None, snd ?p2)"
    using first(1) second(1)
    by (simp add: ex_retry_def ex_msg_def split_beta)
  then have "status_writes ''J1'' (trace (snd (handle_msgs ex_retry ex_pending)))
       = [''RUNNING'', ''FAILED'', ''RUNNING'', ''DONE'']"
    by (simp add: second(2) first(2)) (simp add: ex_pending_def)
  moreover have "attr ex_pending ''J1'' ''status'' = Some ''PENDING''"
    by (simp add: attr_def ex_pending_def)
  ultimately show ?thesis
    by simp
qed

text \<open>
  Claim C2, amended. Over any sequence of deliveries handled by the worker in which no
  queue delete raises, the statuses written for a job, starting from its stored status,
  move only to \<open>RUNNING\<close> from a status that is neither \<open>RUNNING\<close> nor \<open>DONE\<close>
  (\<open>PENDING\<close>, \<open>FAILED\<close> on a redelivery, or no record) and from \<open>RUNNING\<close> to \<open>DONE\<close> or
  to \<open>FAILED\<close>. And whatever the outcomes, a record whose stored status is \<open>DONE\<close> when
  the deliveries begin is the same record, in every field, after them.
\<close>

theorem status_moves:
  "((\<forall>(m, oc) \<in> set dls. delete_res oc = None) \<longrightarrow>
      path_ok (attr s jid ''status'')
        (status_writes jid (drop (length (trace s)) (trace (snd (handle_msgs dls s))))))
   \<and> (attr s jid ''status'' = Some ''DONE'' \<longrightarrow>
        jobs (snd (handle_msgs dls s)) jid = jobs s jid)"
  using hm_follows [of jid dls s] by (auto simp add: follows_def)

theorem status_moves_witness:
  "delete_res ex_encode_fails = None \<and> delete_res ex_ok = None
   \<and> path_ok (attr ex_pending ''J1'' ''status'')
        (status_writes ''J1''
           (drop (length (trace ex_pending)) (trace (snd (handle_msgs ex_retry ex_pending)))))
   \<and> attr ex_done ''J1'' ''status'' = Some ''DONE''
   \<and> jobs (snd (handle_msgs ex_retry ex_done)) ''J1'' = jobs ex_done ''J1''"
proof -
  have a: "\<forall>(m, oc) \<in> set ex_retry. delete_res oc = None"
    by (simp add: ex_retry_def ex_encode_fails_def ex_ok_def)
  have b: "attr ex_done ''J1'' ''status'' = Some ''DONE''"
    by (simp add: attr_def ex_done_def)
  have c: "delete_res ex_encode_fails = None \<and> delete_res ex_ok = None"
    by (simp add: ex_encode_fails_def ex_ok_def)
  from status_moves [of ex_retry ex_pending "''J1''"] status_moves [of ex_retry ex_done "''J1''"] a b c
  show ?thesis
    by blast
qed

subsection \<open>The effects of a successful encode\<close>




end
